theory Spec2Isabelle
  imports Main
begin

section \<open>Shared vocabulary of the two components\<close>

text \<open>
  Both components are React function components. What they do beyond returning a view
  is calling functions they were handed or obtained from hooks: \<^verbatim>\<open>console.log\<close>,
  the \<^verbatim>\<open>onSave\<close> and \<^verbatim>\<open>onOpenChange\<close> props, \<^verbatim>\<open>toast\<close> and \<^verbatim>\<open>navigate\<close>. A handler is
  modelled as the list of the calls it makes, in program order. Source strings are kept
  as \<open>string\<close>; the only non-ASCII character of the sources, the rupee sign U+20B9, is
  written as its three UTF-8 bytes.
\<close>

record toast_args =
  title :: string
  description :: string
  duration :: "nat option"

text \<open>
  The payload type \<open>'d\<close> is the value object of the form at hand. \<open>OnSave\<close> is a call of
  an injected save or update callback with that object (the dialog's prop \<^verbatim>\<open>onSave\<close>).
\<close>

datatype 'd effect =
    ConsoleLog string 'd
  | OnSave 'd
  | Toast toast_args
  | OnOpenChange bool
  | Navigate string

fun is_OnSave :: "'d effect \<Rightarrow> bool" where
  "is_OnSave (OnSave _) = True"
| "is_OnSave _ = False"

fun toasts :: "'d effect list \<Rightarrow> toast_args list" where
  "toasts [] = []"
| "toasts (Toast t # es) = t # toasts es"
| "toasts (_ # es) = toasts es"

text \<open>
  A template literal \<^verbatim>\<open>${x}\<close> over a value that may be \<^verbatim>\<open>undefined\<close> prints the word
  \<^verbatim>\<open>undefined\<close> in that case.
\<close>

definition template :: "string option \<Rightarrow> string" where
  "template x = (case x of None \<Rightarrow> ''undefined'' | Some s \<Rightarrow> s)"

section \<open>EditEnrollmentDialog\<close>

subsection \<open>Data\<close>

record Student =
  student_id :: string
  student_name :: string
  admissionNumber :: string
  currentClass :: string
  currentSection :: string
  currentYear :: string

text \<open>
  The fields of \<^verbatim>\<open>EnrollmentFormValues\<close> as the dialog writes them (\<^verbatim>\<open>class\<close> and
  \<^verbatim>\<open>section\<close> carry a suffix here).
\<close>

record EnrollmentFormValues =
  studentId :: string
  academicYear :: string
  class_field :: string
  section_field :: string
  rollNumber :: string
  feeStructure :: string
  status :: string

record EditEnrollmentDialogProps =
  is_open :: bool
  student :: "Student option"

datatype field =
  StudentId | AcademicYear | ClassField | SectionField | RollNumber | FeeStructure | Status

text \<open>The form object of \<^verbatim>\<open>useForm\<close>: the current values and the field errors.\<close>

record form =
  form_values :: EnrollmentFormValues
  form_errors :: "field list"

subsection \<open>The fixed option lists\<close>

definition rupee :: string where
  "rupee = [CHR 0xE2, CHR 0x82, CHR 0xB9]"

definition academicYears :: "string list" where
  "academicYears = [''2024-2025'', ''2025-2026'', ''2023-2024'']"

definition classes :: "string list" where
  "classes = [''XII'', ''XI'', ''X'', ''IX'', ''VIII'', ''VII'', ''VI'', ''V'', ''IV'', ''III'',
              ''II'', ''I'']"

definition sections :: "string list" where
  "sections = [''A'', ''B'', ''C'', ''D'']"

definition feeStructures :: "string list" where
  "feeStructures =
     [''Standard Fee - '' @ rupee @ ''50,000/year'',
      ''Science Stream - '' @ rupee @ ''60,000/year'',
      ''Commerce Stream - '' @ rupee @ ''55,000/year'',
      ''Arts Stream - '' @ rupee @ ''45,000/year'']"

subsection \<open>The enrollment schema\<close>

text \<open>
  Modelled from the spec: \<^verbatim>\<open>enrollmentSchema\<close> of \<^verbatim>\<open>@/schemas/enrollment.schema\<close>, which the
  dialog imports and which is not among the sources. The spec's words: "enumerated
  fields must match one of the fixed option lists: three academic years, twelve classes,
  four sections, four fee-structure strings"; roll number is free text. A field that
  fails is reported by name; a value that passes is returned as it is.
\<close>

definition schema_errors :: "EnrollmentFormValues \<Rightarrow> field list" where
  "schema_errors v =
     (if academicYear v \<in> set academicYears then [] else [AcademicYear]) @
     (if class_field v \<in> set classes then [] else [ClassField]) @
     (if section_field v \<in> set sections then [] else [SectionField]) @
     (if feeStructure v \<in> set feeStructures then [] else [FeeStructure])"

text \<open>
  Modelled from the spec: the resolver built from \<^verbatim>\<open>enrollmentSchema\<close>, which is not among
  the sources. "Schema validation rejects otherwise": the value is accepted exactly when
  no enumerated field fails, and the accepted value is the submitted one.
\<close>

definition enrollmentSchema :: "EnrollmentFormValues \<Rightarrow> field list + EnrollmentFormValues" where
  "enrollmentSchema v = (if schema_errors v = [] then Inr v else Inl (schema_errors v))"

subsection \<open>The form\<close>

text \<open>
  \<^verbatim>\<open>useForm({resolver, defaultValues})\<close> at mount: the default values read the student
  with \<^verbatim>\<open>student?.x || fallback\<close>, so an absent student and an empty string both give
  the fallback.
\<close>

definition or_else :: "string option \<Rightarrow> string \<Rightarrow> string" where
  "or_else x d = (case x of None \<Rightarrow> d | Some s \<Rightarrow> if s = [] then d else s)"

definition defaultValues :: "Student option \<Rightarrow> EnrollmentFormValues" where
  "defaultValues st =
     \<lparr> studentId = or_else (map_option student_id st) [],
       academicYear = or_else (map_option currentYear st) ''2024-2025'',
       class_field = or_else (map_option currentClass st) [],
       section_field = or_else (map_option currentSection st) [],
       rollNumber = [],
       feeStructure = [],
       status = ''enrolled'' \<rparr>"

definition useForm :: "Student option \<Rightarrow> form" where
  "useForm st = \<lparr> form_values = defaultValues st, form_errors = [] \<rparr>"

text \<open>\<^verbatim>\<open>form.reset(values)\<close> replaces the values and clears the errors.\<close>

definition reset :: "EnrollmentFormValues \<Rightarrow> form \<Rightarrow> form" where
  "reset v f = \<lparr> form_values = v, form_errors = [] \<rparr>"

text \<open>
  \<^verbatim>\<open>field.onChange(value)\<close> of a rendered \<^verbatim>\<open>FormField\<close> stores the value under the
  field's name. The dialog renders five fields; the others have no control. Only the
  values are followed here: the form library's re-validation of a changed field after a
  rejected submit is not part of this function, so nothing below reads the errors of a
  form after a change.
\<close>

fun onChange :: "field \<Rightarrow> string \<Rightarrow> form \<Rightarrow> form" where
  "onChange AcademicYear x f = f\<lparr> form_values := (form_values f)\<lparr> academicYear := x \<rparr> \<rparr>"
| "onChange ClassField x f = f\<lparr> form_values := (form_values f)\<lparr> class_field := x \<rparr> \<rparr>"
| "onChange SectionField x f = f\<lparr> form_values := (form_values f)\<lparr> section_field := x \<rparr> \<rparr>"
| "onChange RollNumber x f = f\<lparr> form_values := (form_values f)\<lparr> rollNumber := x \<rparr> \<rparr>"
| "onChange FeeStructure x f = f\<lparr> form_values := (form_values f)\<lparr> feeStructure := x \<rparr> \<rparr>"
| "onChange _ x f = f"

text \<open>
  \<^verbatim>\<open>form.handleSubmit(onValid)\<close> of the form library: run the resolver on the current
  values; when it accepts, clear the errors and call \<^verbatim>\<open>onValid\<close> with the resolved
  values; when it rejects, store the field errors and call nothing.
\<close>

definition handleSubmit_form ::
  "(EnrollmentFormValues \<Rightarrow> field list + EnrollmentFormValues) \<Rightarrow>
   (EnrollmentFormValues \<Rightarrow> EnrollmentFormValues effect list) \<Rightarrow>
   form \<Rightarrow> EnrollmentFormValues effect list \<times> form" where
  "handleSubmit_form resolver onValid f =
     (case resolver (form_values f) of
        Inl errs \<Rightarrow> ([], f\<lparr> form_errors := errs \<rparr>)
      | Inr v \<Rightarrow> (onValid v, f\<lparr> form_errors := [] \<rparr>))"

subsection \<open>The component\<close>

text \<open>
  The body of the effect (lines 70 to 82): with a student present and the dialog open,
  the form is reset from the student record.
\<close>

definition reset_effect :: "Student option \<Rightarrow> bool \<Rightarrow> form \<Rightarrow> form" where
  "reset_effect st opn f =
     (case st of
        Some s \<Rightarrow>
          if opn then
            reset \<lparr> studentId = student_id s,
                    academicYear = currentYear s,
                    class_field = currentClass s,
                    section_field = currentSection s,
                    rollNumber = [],
                    feeStructure = [],
                    status = ''enrolled'' \<rparr> f
          else f
      | None \<Rightarrow> f)"

text \<open>
  \<^verbatim>\<open>React.useEffect(body, [student, open, form])\<close>: the body runs after the first render
  and after every render whose dependencies differ from those of the render before.
  \<open>prev\<close> is the props of the render before (\<open>None\<close> at mount). The form object is the
  same on every render; the comparison of the student, by reference in the source, is
  by value here.
\<close>

definition useEffect ::
  "EditEnrollmentDialogProps option \<Rightarrow> EditEnrollmentDialogProps \<Rightarrow> form \<Rightarrow> form" where
  "useEffect prev cur f =
     (if prev = Some cur then f else reset_effect (student cur) (is_open cur) f)"

text \<open>\<^verbatim>\<open>onSubmit\<close> (lines 84 to 96).\<close>

definition onSubmit ::
  "Student option \<Rightarrow> EnrollmentFormValues \<Rightarrow> EnrollmentFormValues effect list" where
  "onSubmit st v =
     [ConsoleLog ''Enrollment updated:'' v,
      OnSave v,
      Toast \<lparr> title = ''Enrollment Updated'',
              description = ''Enrollment details for '' @ template (map_option student_name st)
                            @ '' have been updated.'',
              duration = Some 5000 \<rparr>,
      OnOpenChange False]"

text \<open>What the component returns: nothing without a student, the dialog otherwise.\<close>

record dialog_view =
  view_open :: bool
  view_description :: string
  view_values :: EnrollmentFormValues
  view_errors :: "field list"
  year_options :: "string list"
  class_options :: "string list"
  section_options :: "string list"
  fee_options :: "string list"

definition EditEnrollmentDialog :: "EditEnrollmentDialogProps \<Rightarrow> form \<Rightarrow> dialog_view option" where
  "EditEnrollmentDialog p f =
     (case student p of
        None \<Rightarrow> None
      | Some s \<Rightarrow>
          Some \<lparr> view_open = is_open p,
                 view_description = ''Update enrollment information for '' @ student_name s
                                    @ '' (Adm: '' @ admissionNumber s @ '')'',
                 view_values = form_values f,
                 view_errors = form_errors f,
                 year_options = academicYears,
                 class_options = classes,
                 section_options = sections,
                 fee_options = feeStructures \<rparr>)"

text \<open>
  The two buttons of the rendered form. They exist only in a rendered dialog, that is
  with a student present; the handlers close over the props of that render.
\<close>

definition submit_click ::
  "EditEnrollmentDialogProps \<Rightarrow> form \<Rightarrow> EnrollmentFormValues effect list \<times> form" where
  "submit_click p f = handleSubmit_form enrollmentSchema (onSubmit (student p)) f"

definition cancel_click :: "EditEnrollmentDialogProps \<Rightarrow> EnrollmentFormValues effect list" where
  "cancel_click p = [OnOpenChange False]"

section \<open>EditTeacherPage\<close>

subsection \<open>Data\<close>

datatype date = Date string

record subject_assignment =
  subject :: string
  subject_class :: string
  subject_section :: string

record slot =
  available :: bool
  from_time :: string
  to_time :: string

record availability_map =
  monday :: slot
  tuesday :: slot
  wednesday :: slot
  thursday :: slot
  friday :: slot
  saturday :: slot
  sunday :: slot

record Teacher =
  teacher_id :: string
  teacher_name :: string
  staffId :: string
  department :: string
  role :: string
  phone :: string
  email :: string
  qualification :: string
  photo :: string
  gender :: string
  address :: string
  dob :: date
  joiningDate :: date
  subjects :: "subject_assignment list"
  availability :: availability_map

text \<open>
  \<^verbatim>\<open>TeacherFormValues\<close> is declared in \<^verbatim>\<open>@/schemas/teacher.schema\<close>, not among the sources.
  The page reads one field of it, \<^verbatim>\<open>name\<close>; the handlers below take any extension of
  this record, so whatever else the form submits is carried along untouched.
\<close>

record TeacherFormValues =
  name :: string

subsection \<open>The mock record store (lines 13 to 155)\<close>

definition working :: "string \<Rightarrow> string \<Rightarrow> slot" where
  "working a b = \<lparr> available = True, from_time = a, to_time = b \<rparr>"

definition off :: slot where
  "off = \<lparr> available = False, from_time = [], to_time = [] \<rparr>"

definition assignment :: "string \<Rightarrow> string \<Rightarrow> string \<Rightarrow> subject_assignment" where
  "assignment s c x = \<lparr> subject = s, subject_class = c, subject_section = x \<rparr>"

definition teacher1 :: Teacher where
  "teacher1 =
     \<lparr> teacher_id = ''1'', teacher_name = ''Dr. Rahul Sharma'', staffId = ''TCH001'',
       department = ''Science'', role = ''Head of Department'', phone = ''9876543210'',
       email = ''rahul.sharma@school.edu'', qualification = ''Ph.D. Physics'', photo = [],
       gender = ''Male'', address = ''123 Education Street, Academic Colony, New Delhi'',
       dob = Date ''1980-05-15'', joiningDate = Date ''2010-06-01'',
       subjects = [assignment ''Physics'' ''Class 11'' ''A'',
                   assignment ''Physics'' ''Class 12'' ''A'',
                   assignment ''Science'' ''Class 10'' ''B''],
       availability =
         \<lparr> monday = working ''09:00'' ''15:00'', tuesday = working ''09:00'' ''15:00'',
           wednesday = working ''09:00'' ''15:00'', thursday = working ''09:00'' ''15:00'',
           friday = working ''09:00'' ''13:00'', saturday = off, sunday = off \<rparr> \<rparr>"

definition teacher2 :: Teacher where
  "teacher2 =
     \<lparr> teacher_id = ''2'', teacher_name = ''Priya Patel'', staffId = ''TCH002'',
       department = ''Mathematics'', role = ''Senior Teacher'', phone = ''9876543211'',
       email = ''priya.patel@school.edu'', qualification = ''M.Sc. Mathematics'', photo = [],
       gender = ''Female'', address = ''456 Knowledge Park, Faculty Housing, Mumbai'',
       dob = Date ''1985-03-22'', joiningDate = Date ''2012-07-15'',
       subjects = [assignment ''Mathematics'' ''Class 9'' ''A'',
                   assignment ''Mathematics'' ''Class 10'' ''A'',
                   assignment ''Mathematics'' ''Class 8'' ''B''],
       availability =
         \<lparr> monday = working ''08:30'' ''14:30'', tuesday = working ''08:30'' ''14:30'',
           wednesday = working ''08:30'' ''12:30'', thursday = working ''08:30'' ''14:30'',
           friday = working ''08:30'' ''14:30'', saturday = off, sunday = off \<rparr> \<rparr>"

definition teacher3 :: Teacher where
  "teacher3 =
     \<lparr> teacher_id = ''3'', teacher_name = ''Anil Kumar'', staffId = ''TCH003'',
       department = ''Languages'', role = ''Teacher'', phone = ''9876543212'',
       email = ''anil.kumar@school.edu'', qualification = ''M.A. English'', photo = [],
       gender = ''Male'', address = ''789 Literature Lane, Faculty Quarters, Bangalore'',
       dob = Date ''1982-11-10'', joiningDate = Date ''2015-03-20'',
       subjects = [assignment ''English'' ''Class 9'' ''A'',
                   assignment ''English'' ''Class 10'' ''B'',
                   assignment ''Hindi'' ''Class 8'' ''C''],
       availability =
         \<lparr> monday = working ''09:00'' ''15:00'', tuesday = working ''09:00'' ''15:00'',
           wednesday = working ''09:00'' ''15:00'', thursday = working ''09:00'' ''15:00'',
           friday = working ''09:00'' ''15:00'', saturday = off, sunday = off \<rparr> \<rparr>"

definition teacher4 :: Teacher where
  "teacher4 =
     \<lparr> teacher_id = ''4'', teacher_name = ''Sunita Reddy'', staffId = ''TCH004'',
       department = ''Social Studies'', role = ''Teacher'', phone = ''9876543213'',
       email = ''sunita.reddy@school.edu'', qualification = ''M.A. History'', photo = [],
       gender = ''Female'', address = ''101 History Avenue, Teacher Colony, Chennai'',
       dob = Date ''1987-04-25'', joiningDate = Date ''2016-08-05'',
       subjects = [assignment ''History'' ''Class 9'' ''A'',
                   assignment ''Geography'' ''Class 10'' ''B'',
                   assignment ''Social Studies'' ''Class 8'' ''A''],
       availability =
         \<lparr> monday = working ''09:00'' ''15:00'', tuesday = working ''09:00'' ''15:00'',
           wednesday = working ''09:00'' ''15:00'', thursday = working ''09:00'' ''15:00'',
           friday = working ''09:00'' ''15:00'', saturday = off, sunday = off \<rparr> \<rparr>"

definition teacher5 :: Teacher where
  "teacher5 =
     \<lparr> teacher_id = ''5'', teacher_name = ''Rajesh Gupta'', staffId = ''TCH005'',
       department = ''Administration'', role = ''Principal'', phone = ''9876543214'',
       email = ''rajesh.gupta@school.edu'', qualification = ''Ph.D. Education'', photo = [],
       gender = ''Male'', address = ''202 Admin Block, School Campus, Hyderabad'',
       dob = Date ''1975-09-30'', joiningDate = Date ''2008-01-15'',
       subjects = [],
       availability =
         \<lparr> monday = working ''08:00'' ''16:00'', tuesday = working ''08:00'' ''16:00'',
           wednesday = working ''08:00'' ''16:00'', thursday = working ''08:00'' ''16:00'',
           friday = working ''08:00'' ''16:00'', saturday = off, sunday = off \<rparr> \<rparr>"

definition teachers :: "Teacher list" where
  "teachers = [teacher1, teacher2, teacher3, teacher4, teacher5]"

subsection \<open>The component\<close>

text \<open>
  The route parameter \<^verbatim>\<open>id\<close> of \<^verbatim>\<open>useParams\<close> is a string or \<^verbatim>\<open>undefined\<close>. The lookup
  \<^verbatim>\<open>teachers.find(t => t.id === id)\<close> returns the first record whose id is strictly
  equal to it, so nothing for \<^verbatim>\<open>undefined\<close>.
\<close>

definition find_teacher :: "Teacher list \<Rightarrow> string option \<Rightarrow> Teacher option" where
  "find_teacher ts rid = find (\<lambda>t. Some (teacher_id t) = rid) ts"

text \<open>\<^verbatim>\<open>handleSubmit\<close> (lines 165 to 176).\<close>

definition handleSubmit ::
  "string option \<Rightarrow> 'a TeacherFormValues_scheme \<Rightarrow> 'a TeacherFormValues_scheme effect list" where
  "handleSubmit rid data =
     [ConsoleLog ''Updated teacher data:'' data,
      Toast \<lparr> title = ''Teacher Updated'',
              description = name data @ [CHR 0x27] @ ''s information has been updated successfully.'',
              duration = None \<rparr>,
      Navigate (''/teachers/'' @ template rid)]"

text \<open>The \<^verbatim>\<open>onCancel\<close> prop handed to the form, and the back button of the header.\<close>

definition onCancel :: "string option \<Rightarrow> 'a TeacherFormValues_scheme effect list" where
  "onCancel rid = [Navigate (''/teachers/'' @ template rid)]"

definition back_click :: "string option \<Rightarrow> 'a TeacherFormValues_scheme effect list" where
  "back_click rid = [Navigate (''/teachers/'' @ template rid)]"

text \<open>
  One render of the page over a record store: the calls made while rendering, and what
  is returned. Without a match the page calls \<^verbatim>\<open>navigate('/teachers')\<close> and returns
  \<^verbatim>\<open>null\<close>; with one it returns the layout holding the form seeded with the record.
\<close>

record page_view =
  page_title :: string
  form_teacher :: Teacher

definition render_page ::
  "Teacher list \<Rightarrow> string option \<Rightarrow> 'a TeacherFormValues_scheme effect list \<times> page_view option" where
  "render_page ts rid =
     (case find_teacher ts rid of
        None \<Rightarrow> ([Navigate ''/teachers''], None)
      | Some teacher \<Rightarrow>
          ([], Some \<lparr> page_title = ''Edit Teacher: '' @ teacher_name teacher,
                      form_teacher = teacher \<rparr>))"

definition EditTeacherPage ::
  "string option \<Rightarrow> 'a TeacherFormValues_scheme effect list \<times> page_view option" where
  "EditTeacherPage rid = render_page teachers rid"

subsection \<open>The router\<close>

text \<open>
  \<^verbatim>\<open>navigate\<close> of the router library's \<^verbatim>\<open>useNavigate\<close>: the hook marks the component
  active in its first layout effect, which runs after the first render has returned. A
  call made before that is ignored (the hook only warns that \<^verbatim>\<open>navigate()\<close> belongs in
  an effect, "not when your component is first rendered"); a call made afterwards
  moves the location to the target.
\<close>

record router =
  location :: string
  active :: bool

definition navigate :: "router \<Rightarrow> string \<Rightarrow> router" where
  "navigate r path = (if active r then r\<lparr> location := path \<rparr> else r)"

text \<open>What a call does to the router: only \<^verbatim>\<open>navigate\<close> touches it.\<close>

fun perform :: "router \<Rightarrow> 'd effect \<Rightarrow> router" where
  "perform r (Navigate path) = navigate r path"
| "perform r _ = r"

text \<open>
  One render of the page under a router: the calls of the render body are made in
  order, then the view is returned.
\<close>

definition render_under :: "router \<Rightarrow> string option \<Rightarrow> router \<times> page_view option" where
  "render_under r rid =
     (case (EditTeacherPage rid :: TeacherFormValues effect list \<times> page_view option) of
        (calls, view) \<Rightarrow> (foldl perform r calls, view))"

text \<open>
  Mounting the page at location \<open>loc\<close>: the first render runs with the hook not yet
  active, and the layout effect activates it afterwards.
\<close>

definition mount_page :: "string \<Rightarrow> string option \<Rightarrow> router \<times> page_view option" where
  "mount_page loc rid =
     (case render_under \<lparr> location = loc, active = False \<rparr> rid of
        (r, view) \<Rightarrow> (r\<lparr> active := True \<rparr>, view))"

section \<open>Concrete inputs\<close>

text \<open>The student of the spec's worked example, and a second one.\<close>

definition s1 :: Student where
  "s1 = \<lparr> student_id = ''s1'', student_name = ''A'', admissionNumber = ''ADM1'',
           currentClass = ''X'', currentSection = ''B'', currentYear = ''2024-2025'' \<rparr>"

definition s2 :: Student where
  "s2 = \<lparr> student_id = ''s2'', student_name = ''Meera Iyer'', admissionNumber = ''ADM2'',
           currentClass = ''XI'', currentSection = ''A'', currentYear = ''2025-2026'' \<rparr>"

definition standard_fee :: string where
  "standard_fee = ''Standard Fee - '' @ rupee @ ''50,000/year''"

definition science_fee :: string where
  "science_fee = ''Science Stream - '' @ rupee @ ''60,000/year''"

definition v2 :: EnrollmentFormValues where
  "v2 = \<lparr> studentId = ''s2'', academicYear = ''2025-2026'', class_field = ''XI'',
           section_field = ''A'', rollNumber = ''7'', feeStructure = science_fee,
           status = ''enrolled'' \<rparr>"

section \<open>Properties of the enrollment dialog\<close>

subsection \<open>Auxiliary facts\<close>

lemma schema_accepts_iff:
  "enrollmentSchema v = Inr w \<longleftrightarrow>
     w = v \<and> academicYear v \<in> set academicYears \<and> class_field v \<in> set classes \<and>
     section_field v \<in> set sections \<and> feeStructure v \<in> set feeStructures"
  by (auto simp: enrollmentSchema_def schema_errors_def split: if_splits)

lemma valid_v2: "enrollmentSchema v2 = Inr v2"
  by (simp add: enrollmentSchema_def schema_errors_def v2_def science_fee_def rupee_def
      academicYears_def classes_def sections_def feeStructures_def)

lemmas teacher_defs = teachers_def teacher1_def teacher2_def teacher3_def teacher4_def teacher5_def

lemma render_page_no_match:
  "\<forall>t \<in> set ts. Some (teacher_id t) \<noteq> rid \<Longrightarrow> render_page ts rid = ([Navigate ''/teachers''], None)"
proof -
  assume "\<forall>t \<in> set ts. Some (teacher_id t) \<noteq> rid"
  then have "find_teacher ts rid = None"
    by (simp add: find_teacher_def find_None_iff)
  then show ?thesis
    by (simp add: render_page_def)
qed

lemma mount_page_no_match:
  "\<forall>t \<in> set teachers. Some (teacher_id t) \<noteq> rid \<Longrightarrow>
     mount_page loc rid = (\<lparr> location = loc, active = True \<rparr>, None)"
proof -
  assume "\<forall>t \<in> set teachers. Some (teacher_id t) \<noteq> rid"
  then have "(EditTeacherPage rid :: TeacherFormValues effect list \<times> page_view option)
      = ([Navigate ''/teachers''], None)"
    unfolding EditTeacherPage_def by (rule render_page_no_match)
  then show ?thesis
    by (simp add: mount_page_def render_under_def navigate_def)
qed

lemma find_teacher_id: "find_teacher ts rid = Some t \<Longrightarrow> rid = Some (teacher_id t)"
  by (auto simp: find_teacher_def find_Some_iff)

subsection \<open>Submission\<close>

text \<open>
  Claim C1. Whenever the values of the form pass the schema, pressing the submit button
  of a dialog rendered for student \<open>s\<close> makes exactly these calls, in this order: the
  console log, \<^verbatim>\<open>onSave\<close> with the validated values (which are the values selected in
  the form), the toast whose description names the student, and \<^verbatim>\<open>onOpenChange(false)\<close>.
  \<^verbatim>\<open>onSave\<close> occurs once.
\<close>

theorem submit_valid_calls_onSave_once:
  assumes "enrollmentSchema (form_values f) = Inr v" and "student p = Some s"
  shows "fst (submit_click p f) =
           [ConsoleLog ''Enrollment updated:'' v,
            OnSave v,
            Toast \<lparr> title = ''Enrollment Updated'',
                    description = ''Enrollment details for '' @ student_name s
                                  @ '' have been updated.'',
                    duration = Some 5000 \<rparr>,
            OnOpenChange False]
         \<and> filter is_OnSave (fst (submit_click p f)) = [OnSave (form_values f)]
         \<and> v = form_values f"
proof -
  from assms(1) have v: "v = form_values f"
    by (simp add: schema_accepts_iff)
  from assms show ?thesis
    unfolding v by (simp add: submit_click_def handleSubmit_form_def onSubmit_def template_def)
qed

theorem submit_valid_calls_onSave_once_witness:
  "enrollmentSchema (form_values \<lparr> form_values = v2, form_errors = [] \<rparr>) = Inr v2
   \<and> student \<lparr> is_open = True, student = Some s2 \<rparr> = Some s2
   \<and> fst (submit_click \<lparr> is_open = True, student = Some s2 \<rparr>
                        \<lparr> form_values = v2, form_errors = [] \<rparr>) =
           [ConsoleLog ''Enrollment updated:'' v2,
            OnSave v2,
            Toast \<lparr> title = ''Enrollment Updated'',
                    description = ''Enrollment details for Meera Iyer have been updated.'',
                    duration = Some 5000 \<rparr>,
            OnOpenChange False]"
proof -
  have h1: "enrollmentSchema (form_values \<lparr> form_values = v2, form_errors = [] \<rparr>) = Inr v2"
    by (simp add: valid_v2)
  have h2: "student \<lparr> is_open = True, student = Some s2 \<rparr> = Some s2"
    by simp
  from submit_valid_calls_onSave_once [OF h1 h2] h1 h2 show ?thesis
    by (simp add: s2_def)
qed

text \<open>
  Claim C3. When a value of the form lies outside its option list, or the schema rejects
  the values for any reason, the submit button makes no call at all, so \<^verbatim>\<open>onSave\<close> is not
  invoked; the values stay as they are and the form's errors name exactly the fields
  that failed.
\<close>

theorem invalid_submission_blocked:
  assumes "academicYear (form_values f) \<notin> set academicYears
           \<or> class_field (form_values f) \<notin> set classes
           \<or> section_field (form_values f) \<notin> set sections
           \<or> feeStructure (form_values f) \<notin> set feeStructures
           \<or> (\<exists>errs. enrollmentSchema (form_values f) = Inl errs)"
  shows "fst (submit_click p f) = []
         \<and> \<not> list_ex is_OnSave (fst (submit_click p f))
         \<and> form_values (snd (submit_click p f)) = form_values f
         \<and> form_errors (snd (submit_click p f)) \<noteq> []
         \<and> (AcademicYear \<in> set (form_errors (snd (submit_click p f)))
              \<longleftrightarrow> academicYear (form_values f) \<notin> set academicYears)
         \<and> (ClassField \<in> set (form_errors (snd (submit_click p f)))
              \<longleftrightarrow> class_field (form_values f) \<notin> set classes)
         \<and> (SectionField \<in> set (form_errors (snd (submit_click p f)))
              \<longleftrightarrow> section_field (form_values f) \<notin> set sections)
         \<and> (FeeStructure \<in> set (form_errors (snd (submit_click p f)))
              \<longleftrightarrow> feeStructure (form_values f) \<notin> set feeStructures)"
proof -
  from assms have bad: "schema_errors (form_values f) \<noteq> []"
    by (auto simp: enrollmentSchema_def schema_errors_def split: if_splits)
  then have res: "submit_click p f = ([], f\<lparr> form_errors := schema_errors (form_values f) \<rparr>)"
    by (simp add: submit_click_def handleSubmit_form_def enrollmentSchema_def)
  show ?thesis
    unfolding res using bad by (simp add: schema_errors_def)
qed

theorem invalid_submission_blocked_witness:
  "feeStructure (form_values \<lparr> form_values = v2\<lparr> feeStructure := ''Premium Fee'' \<rparr>,
                               form_errors = [] \<rparr>) \<notin> set feeStructures
   \<and> fst (submit_click \<lparr> is_open = True, student = Some s2 \<rparr>
                        \<lparr> form_values = v2\<lparr> feeStructure := ''Premium Fee'' \<rparr>,
                          form_errors = [] \<rparr>) = []
   \<and> form_errors (snd (submit_click \<lparr> is_open = True, student = Some s2 \<rparr>
                        \<lparr> form_values = v2\<lparr> feeStructure := ''Premium Fee'' \<rparr>,
                          form_errors = [] \<rparr>)) = [FeeStructure]"
proof -
  let ?f = "\<lparr> form_values = v2\<lparr> feeStructure := ''Premium Fee'' \<rparr>, form_errors = [] \<rparr>"
  let ?p = "\<lparr> is_open = True, student = Some s2 \<rparr>"
  have h: "feeStructure (form_values ?f) \<notin> set feeStructures"
    by (simp add: feeStructures_def rupee_def)
  then have hyp: "academicYear (form_values ?f) \<notin> set academicYears
           \<or> class_field (form_values ?f) \<notin> set classes
           \<or> section_field (form_values ?f) \<notin> set sections
           \<or> feeStructure (form_values ?f) \<notin> set feeStructures
           \<or> (\<exists>errs. enrollmentSchema (form_values ?f) = Inl errs)"
    by blast
  have e: "form_errors (snd (submit_click ?p ?f)) = [FeeStructure]"
    by (simp add: submit_click_def handleSubmit_form_def enrollmentSchema_def schema_errors_def
        v2_def feeStructures_def rupee_def academicYears_def classes_def sections_def)
  from invalid_submission_blocked [OF hyp, of ?p] h e show ?thesis
    by simp
qed

text \<open>
  Claim C5. The worked example: the dialog is opened for student \<open>s1\<close> over any earlier
  form state, roll number 12 and the standard fee are entered, and the form is submitted.
  \<^verbatim>\<open>onSave\<close> receives exactly the listed object.
\<close>

theorem worked_example:
  "fst (submit_click \<lparr> is_open = True, student = Some s1 \<rparr>
         (onChange FeeStructure standard_fee
           (onChange RollNumber ''12''
             (useEffect (Some \<lparr> is_open = False, student = st0 \<rparr>)
                        \<lparr> is_open = True, student = Some s1 \<rparr> f)))) =
     [ConsoleLog ''Enrollment updated:''
        \<lparr> studentId = ''s1'', academicYear = ''2024-2025'', class_field = ''X'',
          section_field = ''B'', rollNumber = ''12'', feeStructure = standard_fee,
          status = ''enrolled'' \<rparr>,
      OnSave
        \<lparr> studentId = ''s1'', academicYear = ''2024-2025'', class_field = ''X'',
          section_field = ''B'', rollNumber = ''12'', feeStructure = standard_fee,
          status = ''enrolled'' \<rparr>,
      Toast \<lparr> title = ''Enrollment Updated'',
              description = ''Enrollment details for A have been updated.'',
              duration = Some 5000 \<rparr>,
      OnOpenChange False]"
proof -
  let ?p = "\<lparr> is_open = True, student = Some s1 \<rparr>"
  let ?v = "\<lparr> studentId = ''s1'', academicYear = ''2024-2025'', class_field = ''X'',
          section_field = ''B'', rollNumber = ''12'', feeStructure = standard_fee,
          status = ''enrolled'' \<rparr>"
  have opened: "useEffect (Some \<lparr> is_open = False, student = st0 \<rparr>) ?p f =
      \<lparr> form_values = \<lparr> studentId = ''s1'', academicYear = ''2024-2025'', class_field = ''X'',
          section_field = ''B'', rollNumber = [], feeStructure = [],
          status = ''enrolled'' \<rparr>, form_errors = [] \<rparr>"
    by (simp add: useEffect_def reset_effect_def reset_def s1_def)
  have ok: "enrollmentSchema ?v = Inr ?v"
    by (simp add: enrollmentSchema_def schema_errors_def standard_fee_def rupee_def
        academicYears_def classes_def sections_def feeStructures_def)
  show ?thesis
    unfolding opened
    by (simp add: submit_click_def handleSubmit_form_def ok onSubmit_def template_def s1_def)
qed

subsection \<open>Opening, absence of the student, cancelling\<close>

text \<open>
  Claim C2. When the dialog becomes open with student \<open>S\<close> present (at mount, or after
  a render in which it was not open), the effect replaces the form state, whatever it
  was, by the values read from \<open>S\<close>, empty roll number and fee structure, status
  \<^verbatim>\<open>enrolled\<close>, and no errors.
\<close>

theorem open_resets_form:
  assumes "map_option is_open prev \<noteq> Some True"
  shows "useEffect prev \<lparr> is_open = True, student = Some S \<rparr> f =
           \<lparr> form_values =
               \<lparr> studentId = student_id S,
                 academicYear = currentYear S,
                 class_field = currentClass S,
                 section_field = currentSection S,
                 rollNumber = [],
                 feeStructure = [],
                 status = ''enrolled'' \<rparr>,
             form_errors = [] \<rparr>"
proof -
  from assms have "prev \<noteq> Some \<lparr> is_open = True, student = Some S \<rparr>"
    by auto
  then show ?thesis
    by (simp add: useEffect_def reset_effect_def reset_def)
qed

theorem open_resets_form_witness:
  "map_option is_open (Some \<lparr> is_open = False, student = Some s1 \<rparr>) \<noteq> Some True
   \<and> useEffect (Some \<lparr> is_open = False, student = Some s1 \<rparr>)
               \<lparr> is_open = True, student = Some s1 \<rparr>
               \<lparr> form_values = v2, form_errors = [FeeStructure] \<rparr> =
           \<lparr> form_values =
               \<lparr> studentId = ''s1'', academicYear = ''2024-2025'', class_field = ''X'',
                 section_field = ''B'', rollNumber = [], feeStructure = [],
                 status = ''enrolled'' \<rparr>,
             form_errors = [] \<rparr>"
proof -
  have h: "map_option is_open (Some \<lparr> is_open = False, student = Some s1 \<rparr>) \<noteq> Some True"
    by simp
  from open_resets_form [OF h, of s1 "\<lparr> form_values = v2, form_errors = [FeeStructure] \<rparr>"] h
  show ?thesis
    by (simp add: s1_def)
qed

text \<open>
  Claim C6. Without a student the component returns nothing, whether open or not, and
  its effect leaves the form untouched; rendering makes no call.
\<close>

theorem absent_student_renders_nothing:
  "EditEnrollmentDialog \<lparr> is_open = opn, student = None \<rparr> f = None
   \<and> useEffect prev \<lparr> is_open = opn, student = None \<rparr> f = f"
  by (simp add: EditEnrollmentDialog_def useEffect_def reset_effect_def)

text \<open>
  Claim C7. The option lists hold three academic years, twelve classes, four sections
  and four fee structures, all different, and the schema accepts a value exactly when
  each enumerated field is a member of its list.
\<close>

theorem option_lists_and_schema:
  "length academicYears = 3 \<and> distinct academicYears
   \<and> length classes = 12 \<and> distinct classes
   \<and> length sections = 4 \<and> distinct sections
   \<and> length feeStructures = 4 \<and> distinct feeStructures
   \<and> ((\<exists>w. enrollmentSchema v = Inr w) \<longleftrightarrow>
        academicYear v \<in> set academicYears \<and> class_field v \<in> set classes
        \<and> section_field v \<in> set sections \<and> feeStructure v \<in> set feeStructures)"
proof -
  have "length academicYears = 3 \<and> distinct academicYears"
    by (simp add: academicYears_def)
  moreover have "length classes = 12 \<and> distinct classes"
    by (simp add: classes_def)
  moreover have "length sections = 4 \<and> distinct sections"
    by (simp add: sections_def)
  moreover have "length feeStructures = 4 \<and> distinct feeStructures"
    by (simp add: feeStructures_def)
  moreover have "(\<exists>w. enrollmentSchema v = Inr w) \<longleftrightarrow>
        academicYear v \<in> set academicYears \<and> class_field v \<in> set classes
        \<and> section_field v \<in> set sections \<and> feeStructure v \<in> set feeStructures"
    by (simp add: schema_accepts_iff)
  ultimately show ?thesis
    by blast
qed

theorem option_lists_and_schema_witness:
  "(\<exists>w. enrollmentSchema v2 = Inr w) \<and> feeStructure v2 \<in> set feeStructures
   \<and> \<not> (\<exists>w. enrollmentSchema (v2\<lparr> feeStructure := ''Premium Fee'' \<rparr>) = Inr w)"
proof -
  have bad: "feeStructure (v2\<lparr> feeStructure := ''Premium Fee'' \<rparr>) \<notin> set feeStructures"
    by (simp add: feeStructures_def rupee_def)
  have good: "academicYear v2 \<in> set academicYears \<and> class_field v2 \<in> set classes
        \<and> section_field v2 \<in> set sections \<and> feeStructure v2 \<in> set feeStructures"
    by (simp add: v2_def science_fee_def rupee_def academicYears_def classes_def sections_def
        feeStructures_def)
  from option_lists_and_schema [of v2]
       option_lists_and_schema [of "v2\<lparr> feeStructure := ''Premium Fee'' \<rparr>"] bad good
  show ?thesis
    by blast
qed

section \<open>Properties of the teacher page\<close>

text \<open>
  Claim C4. The page is mounted with the route identifier 6, which no teacher of the
  store carries. Nothing is rendered, but the location is the one the page was mounted
  at, not the listing: the render body calls \<^verbatim>\<open>navigate('/teachers')\<close> before the hook is
  active, and the call is ignored. The same render under an active hook does reach the
  listing.
\<close>

theorem unknown_teacher_mount_keeps_location:
  "mount_page loc (Some ''6'') = (\<lparr> location = loc, active = True \<rparr>, None)
   \<and> fst (EditTeacherPage (Some ''6'') :: TeacherFormValues effect list \<times> page_view option)
       = [Navigate ''/teachers'']
   \<and> render_under \<lparr> location = loc, active = True \<rparr> (Some ''6'')
       = (\<lparr> location = ''/teachers'', active = True \<rparr>, None)"
proof -
  have "\<forall>t \<in> set teachers. Some (teacher_id t) \<noteq> Some ''6''"
    by (simp add: teacher_defs)
  then have page: "(EditTeacherPage (Some ''6'') :: TeacherFormValues effect list \<times> page_view option)
      = ([Navigate ''/teachers''], None)"
    unfolding EditTeacherPage_def by (rule render_page_no_match)
  show ?thesis
    by (simp add: mount_page_def render_under_def page navigate_def)
qed

text \<open>
  The submit handler of the page calls no save or update callback: for teacher 1 and
  the unchanged name, no \<open>OnSave\<close> occurs among its calls.
\<close>

theorem teacher_submit_no_update_callback_counterexample:
  "find_teacher teachers (Some ''1'') = Some teacher1
   \<and> \<not> list_ex is_OnSave (handleSubmit (Some ''1'') \<lparr> name = ''Dr. Rahul Sharma'' \<rparr>)
   \<and> OnSave \<lparr> name = ''Dr. Rahul Sharma'' \<rparr>
        \<notin> set (handleSubmit (Some ''1'') \<lparr> name = ''Dr. Rahul Sharma'' \<rparr>)"
  by (simp add: find_teacher_def teacher_defs handleSubmit_def)

text \<open>
  Claim C8, as the code has it. For a matched teacher and any submitted values, the
  submit handler logs the values to the console, shows the toast titled
  \<^verbatim>\<open>Teacher Updated\<close> whose description carries the submitted name, and navigates to the
  detail view of that teacher; it calls no update callback.
\<close>

theorem teacher_submit_trace:
  assumes "find_teacher teachers rid = Some t"
  shows "handleSubmit rid data =
           [ConsoleLog ''Updated teacher data:'' data,
            Toast \<lparr> title = ''Teacher Updated'',
                    description = name data @ [CHR 0x27]
                                  @ ''s information has been updated successfully.'',
                    duration = None \<rparr>,
            Navigate (''/teachers/'' @ teacher_id t)]
         \<and> \<not> list_ex is_OnSave (handleSubmit rid data)"
  using find_teacher_id [OF assms] by (simp add: handleSubmit_def template_def)

theorem teacher_submit_trace_witness:
  "find_teacher teachers (Some ''2'') = Some teacher2
   \<and> handleSubmit (Some ''2'') \<lparr> name = ''Priya P. Patel'' \<rparr> =
           [ConsoleLog ''Updated teacher data:'' \<lparr> name = ''Priya P. Patel'' \<rparr>,
            Toast \<lparr> title = ''Teacher Updated'',
                    description = ''Priya P. Patel'' @ [CHR 0x27]
                                  @ ''s information has been updated successfully.'',
                    duration = None \<rparr>,
            Navigate ''/teachers/2'']"
proof -
  have h: "find_teacher teachers (Some ''2'') = Some teacher2"
    by (simp add: find_teacher_def teacher_defs)
  from teacher_submit_trace [OF h, of "\<lparr> name = ''Priya P. Patel'' \<rparr>"] h show ?thesis
    by (simp add: teacher2_def)
qed

text \<open>
  Claim C9. Cancelling the dialog calls \<^verbatim>\<open>onOpenChange(false)\<close> and nothing else;
  cancelling the teacher form navigates to the detail view and nothing else. Neither
  calls a save or update callback.
\<close>

theorem cancel_never_saves:
  "cancel_click p = [OnOpenChange False]
   \<and> \<not> list_ex is_OnSave (cancel_click p)
   \<and> onCancel (Some i) = [Navigate (''/teachers/'' @ i)]
   \<and> \<not> list_ex is_OnSave (onCancel rid)"
  by (simp add: cancel_click_def onCancel_def template_def)

text \<open>
  Claim C10. The toast of the teacher page is built from the submitted name alone:
  its description is that name followed by the fixed text, whatever the route identifier
  and the stored record, and two submissions with equal names give equal toasts.
\<close>

theorem toast_uses_submitted_name:
  "toasts (handleSubmit rid data) =
     [\<lparr> title = ''Teacher Updated'',
        description = name data @ [CHR 0x27] @ ''s information has been updated successfully.'',
        duration = None \<rparr>]
   \<and> (name data = name data' \<longrightarrow>
        toasts (handleSubmit rid data) = toasts (handleSubmit rid' data'))"
  by (simp add: handleSubmit_def)

theorem toast_uses_submitted_name_witness:
  "find_teacher teachers (Some ''3'') = Some teacher3
   \<and> teacher_name teacher3 = ''Anil Kumar''
   \<and> map description (toasts (handleSubmit (Some ''3'') \<lparr> name = ''Anil K. Verma'' \<rparr>)) =
       [''Anil K. Verma'' @ [CHR 0x27] @ ''s information has been updated successfully.'']
   \<and> toasts (handleSubmit (Some ''3'') \<lparr> name = ''Anil K. Verma'' \<rparr>) =
       toasts (handleSubmit (Some ''4'') \<lparr> name = ''Anil K. Verma'' \<rparr>)"
proof -
  have h: "find_teacher teachers (Some ''3'') = Some teacher3 \<and> teacher_name teacher3 = ''Anil Kumar''"
    by (simp add: find_teacher_def teacher_defs)
  have n: "name \<lparr> name = ''Anil K. Verma'' \<rparr> = name \<lparr> name = ''Anil K. Verma'' \<rparr>"
    by simp
  note t = toast_uses_submitted_name [of "Some ''3''" "\<lparr> name = ''Anil K. Verma'' \<rparr>"
         "\<lparr> name = ''Anil K. Verma'' \<rparr>" "Some ''4''"]
  from t have a: "map description (toasts (handleSubmit (Some ''3'') \<lparr> name = ''Anil K. Verma'' \<rparr>)) =
       [''Anil K. Verma'' @ [CHR 0x27] @ ''s information has been updated successfully.'']"
    by simp
  from t n have b: "toasts (handleSubmit (Some ''3'') \<lparr> name = ''Anil K. Verma'' \<rparr>) =
       toasts (handleSubmit (Some ''4'') \<lparr> name = ''Anil K. Verma'' \<rparr>)"
    by blast
  from h a b show ?thesis
    by blast
qed

end
